theory Spec2Isabelle
  imports Main "HOL-Library.Char_ord" "HOL-Library.List_Lexorder" "HOL-Library.Multiset"
begin

unbundle bit_operations_syntax

section \<open>A shallow embedding of mido/portmidi.py\<close>

text \<open>
  The module talks to two collaborators that are not part of it: the PortMidi driver
  (\<^verbatim>\<open>pm.lib\<close>) and the byte-stream \<^verbatim>\<open>Parser\<close>. Both are parameters of the model.
  Every call into the driver is appended to a trace, so that "no driver call is made"
  is a statement about the trace. Exceptions are values: every function returns
  \<open>error + result\<close> together with the state it leaves behind.
\<close>

subsection \<open>Exceptions\<close>

text \<open>
  One constructor per \<^verbatim>\<open>raise\<close> of the module:
  \<^item> \<open>DeviceNotFound id\<close>: \<^verbatim>\<open>IOError('PortMidi device with id={} not found')\<close>;
  \<^item> \<open>NoDefaultDevice\<close>: \<^verbatim>\<open>IOError('no default port found')\<close>;
  \<^item> \<open>PortAlreadyOpen name\<close>: \<^verbatim>\<open>IOError('port already opened: {!r}')\<close>;
  \<^item> \<open>UnknownPort name\<close>: \<^verbatim>\<open>IOError('unknown port: {!r}')\<close>;
  \<^item> \<open>NativeDriverError text\<close>: \<^verbatim>\<open>IOError(pm.lib.Pm_GetErrorText(return_value))\<close>;
  \<^item> \<open>SendOnClosedPort\<close>: \<^verbatim>\<open>ValueError('send() called on closed port')\<close>;
  \<^item> \<open>AttributeError\<close>: what Python raises for \<^verbatim>\<open>self.device.opened = ...\<close> when
    \<^verbatim>\<open>self.device\<close> is \<^verbatim>\<open>None\<close>.
\<close>

datatype error =
    DeviceNotFound int
  | NoDefaultDevice
  | PortAlreadyOpen string
  | UnknownPort string
  | NativeDriverError string
  | SendOnClosedPort
  | AttributeError

subsection \<open>The driver\<close>

text \<open>
  The struct behind \<^verbatim>\<open>Pm_GetDeviceInfo\<close>. Its declaration lives in
  \<^verbatim>\<open>portmidi_wrapper\<close>; the field types follow the DeviceRecord of the
  specification (strings and booleans). A name is the byte string that
  \<^verbatim>\<open>decode('utf-8')\<close> reads; bytewise order on UTF-8 coincides with the code point
  order Python compares strings by.
\<close>

record PmDeviceInfo =
  info_interface :: string
  info_name :: string
  info_is_input :: bool
  info_is_output :: bool
  info_opened :: bool

text \<open>
  One answer of \<^verbatim>\<open>Pm_Read(stream, read_buffer, 1)\<close>: the return value, and the message
  of the event it stored in \<^verbatim>\<open>read_buffer[0]\<close>, if it stored one.
\<close>

record read_result =
  num_events :: int
  stored :: "int option"

text \<open>
  What the driver answers at the time of a call. \<open>pending_events\<close> holds one read result
  for every round in which \<^verbatim>\<open>Pm_Poll\<close> answers true; after the last one it answers false.
  The open calls return the code and the handle written through \<^verbatim>\<open>byref(self._stream)\<close>.
\<close>

record driver =
  Pm_CountDevices :: int
  Pm_GetDeviceInfo :: "int \<Rightarrow> PmDeviceInfo option"
  Pm_GetDefaultInputDeviceID :: int
  Pm_GetDefaultOutputDeviceID :: int
  Pm_OpenInput :: "int \<Rightarrow> int \<times> nat"
  Pm_OpenOutput :: "int \<Rightarrow> int \<times> nat"
  Pm_Close :: "nat \<Rightarrow> int"
  pending_events :: "read_result list"
  Pm_WriteShort :: "int \<Rightarrow> int"
  Pm_WriteSysEx :: "int list \<Rightarrow> int"
  Pm_GetErrorText :: "int \<Rightarrow> string"

text \<open>The trace: one entry per call of a \<^verbatim>\<open>pm.lib\<close> function, with its arguments.\<close>

datatype driver_call =
    Call_Initialize
  | Call_Terminate
  | Call_GetErrorText int
  | Call_CountDevices
  | Call_GetDeviceInfo int
  | Call_GetDefaultInputDeviceID
  | Call_GetDefaultOutputDeviceID
  | Call_OpenInput int int
  | Call_OpenOutput int int int
  | Call_Close nat
  | Call_Poll nat
  | Call_Read nat int
  | Call_WriteShort nat int int
  | Call_WriteSysEx nat int "int list"

text \<open>The module-level state: the flag \<^verbatim>\<open>_initialized\<close>, and the trace.\<close>

record world =
  initialized :: bool
  calls :: "driver_call list"

definition initial_world :: world where
  "initial_world = \<lparr>initialized = False, calls = []\<rparr>"

definition log_call :: "driver_call \<Rightarrow> world \<Rightarrow> world" where
  "log_call c w = w\<lparr>calls := calls w @ [c]\<rparr>"

subsection \<open>Module functions\<close>

definition check_error :: "driver \<Rightarrow> int \<Rightarrow> world \<Rightarrow> (error + unit) \<times> world" where
  "check_error drv return_value w =
     (if return_value < 0
      then (Inl (NativeDriverError (Pm_GetErrorText drv return_value)),
            log_call (Call_GetErrorText return_value) w)
      else (Inr (), w))"

definition initialize :: "world \<Rightarrow> world" where
  "initialize w =
     (if initialized w then (log_call Call_Initialize w)\<lparr>initialized := True\<rparr> else w)"

definition terminate :: "world \<Rightarrow> world" where
  "terminate w = (if initialized w then log_call Call_Terminate w else w)"

record DeviceInfo =
  device_id :: int
  interface :: string
  name :: string
  is_input :: bool
  is_output :: bool
  opened :: bool

definition DeviceInfo_init :: "driver \<Rightarrow> int \<Rightarrow> world \<Rightarrow> (error + DeviceInfo) \<times> world" where
  "DeviceInfo_init drv i w =
     (let w1 = log_call (Call_GetDeviceInfo i) w in
      case Pm_GetDeviceInfo drv i of
        None \<Rightarrow> (Inl (DeviceNotFound i), w1)
      | Some info \<Rightarrow>
          (Inr \<lparr>device_id = i,
                interface = info_interface info,
                name = info_name info,
                is_input = info_is_input info,
                is_output = info_is_output info,
                opened = info_opened info\<rparr>, w1))"

text \<open>The loop of \<^verbatim>\<open>get_devices\<close> over the remaining ids; the first failure leaves it.\<close>

fun get_devices_loop ::
  "driver \<Rightarrow> int list \<Rightarrow> DeviceInfo list \<Rightarrow> world \<Rightarrow> (error + DeviceInfo list) \<times> world" where
  "get_devices_loop drv [] devices w = (Inr devices, w)"
| "get_devices_loop drv (i # ids) devices w =
     (case DeviceInfo_init drv i w of
        (Inl e, w1) \<Rightarrow> (Inl e, w1)
      | (Inr d, w1) \<Rightarrow> get_devices_loop drv ids (devices @ [d]) w1)"

definition get_devices :: "driver \<Rightarrow> world \<Rightarrow> (error + DeviceInfo list) \<times> world" where
  "get_devices drv w =
     get_devices_loop drv [0 .. Pm_CountDevices drv - 1] [] (log_call Call_CountDevices w)"

definition get_input_names :: "driver \<Rightarrow> world \<Rightarrow> (error + string list) \<times> world" where
  "get_input_names drv w =
     (case get_devices drv w of
        (Inl e, w1) \<Rightarrow> (Inl e, w1)
      | (Inr devices, w1) \<Rightarrow> (Inr (sort (map name (filter is_input devices))), w1))"

definition get_output_names :: "driver \<Rightarrow> world \<Rightarrow> (error + string list) \<times> world" where
  "get_output_names drv w =
     (case get_devices drv w of
        (Inl e, w1) \<Rightarrow> (Inl e, w1)
      | (Inr devices, w1) \<Rightarrow> (Inr (sort (map name (filter is_output devices))), w1))"

subsection \<open>Port\<close>

text \<open>
  \<open>is_Input\<close> is \<^verbatim>\<open>self.__class__ == Input\<close>; \<open>stream\<close> is the handle behind
  \<^verbatim>\<open>self._stream\<close>, 0 for the null pointer of a fresh \<^verbatim>\<open>PortMidiStreamPtr()\<close>.
\<close>

record Port =
  is_Input :: bool
  port_name :: "string option"
  closed :: bool
  stream :: nat
  device :: "DeviceInfo option"

text \<open>
  The \<^verbatim>\<open>for ... else\<close> of \<^verbatim>\<open>Port.__init__\<close> over the devices still to visit:
  \<^verbatim>\<open>continue\<close> on another name, \<^verbatim>\<open>continue\<close> on the flag of the other direction,
  \<^verbatim>\<open>raise\<close> on an opened device, \<^verbatim>\<open>break\<close> with the device otherwise; the \<^verbatim>\<open>else\<close>
  branch raises when the list is exhausted.
\<close>

fun find_device :: "bool \<Rightarrow> string \<Rightarrow> DeviceInfo list \<Rightarrow> error + DeviceInfo" where
  "find_device this_is_input nm [] = Inl (UnknownPort nm)"
| "find_device this_is_input nm (d # ds) =
     (if name d \<noteq> nm then find_device this_is_input nm ds
      else if (if this_is_input then is_output d else is_input d)
           then find_device this_is_input nm ds
      else if opened d then Inl (PortAlreadyOpen nm)
      else Inr d)"

text \<open>The end of \<^verbatim>\<open>Port.__init__\<close>, from \<^verbatim>\<open>device_id = self.device.device_id\<close> on.\<close>

definition open_stream :: "driver \<Rightarrow> Port \<Rightarrow> world \<Rightarrow> (error + unit) \<times> Port \<times> world" where
  "open_stream drv p w =
     (case device p of
        None \<Rightarrow> (Inl AttributeError, p, w)
      | Some d \<Rightarrow>
          (let i = device_id d;
               (rc, handle) = (if is_Input p then Pm_OpenInput drv i else Pm_OpenOutput drv i);
               w1 = log_call (if is_Input p then Call_OpenInput i 1000
                              else Call_OpenOutput i 0 0) w;
               p1 = p\<lparr>stream := handle\<rparr>
           in case check_error drv rc w1 of
                (Inl e, w2) \<Rightarrow> (Inl e, p1, w2)
              | (Inr u, w2) \<Rightarrow>
                  (Inr (), p1\<lparr>closed := False, device := Some (d\<lparr>opened := True\<rparr>)\<rparr>, w2)))"

text \<open>
  The middle of \<^verbatim>\<open>Port.__init__\<close>: the \<^verbatim>\<open>if self.name is None: ... else: ...\<close> that
  binds \<^verbatim>\<open>self.device\<close>, by the driver's default id or by the scan of \<^verbatim>\<open>get_devices()\<close>.
\<close>

definition select_device :: "driver \<Rightarrow> Port \<Rightarrow> world \<Rightarrow> (error + Port) \<times> world" where
  "select_device drv p w =
     (case port_name p of
        None \<Rightarrow>
          (let i = (if is_Input p then Pm_GetDefaultInputDeviceID drv
                    else Pm_GetDefaultOutputDeviceID drv);
               w1 = log_call (if is_Input p then Call_GetDefaultInputDeviceID
                              else Call_GetDefaultOutputDeviceID) w
           in if i < 0 then (Inl NoDefaultDevice, w1)
              else case DeviceInfo_init drv i w1 of
                     (Inl e, w2) \<Rightarrow> (Inl e, w2)
                   | (Inr d, w2) \<Rightarrow> (Inr (p\<lparr>device := Some d, port_name := Some (name d)\<rparr>), w2))
      | Some n \<Rightarrow>
          (case get_devices drv w of
             (Inl e, w1) \<Rightarrow> (Inl e, w1)
           | (Inr devices, w1) \<Rightarrow>
               (case find_device (is_Input p) n devices of
                  Inl e \<Rightarrow> (Inl e, w1)
                | Inr d \<Rightarrow> (Inr (p\<lparr>device := Some d\<rparr>), w1))))"

text \<open>The attributes \<^verbatim>\<open>Port.__init__\<close> sets before it calls \<^verbatim>\<open>_initialize()\<close>.\<close>

definition new_port :: "bool \<Rightarrow> string option \<Rightarrow> Port" where
  "new_port this_is_input nm =
     \<lparr>is_Input = this_is_input, port_name = nm, closed = True, stream = 0, device = None\<rparr>"

text \<open>
  \<^verbatim>\<open>Port.__init__\<close>. The port is returned on every path: when the constructor raises,
  it is the object as the exception leaves it.
\<close>

definition Port_init ::
  "driver \<Rightarrow> bool \<Rightarrow> string option \<Rightarrow> world \<Rightarrow> (error + unit) \<times> Port \<times> world" where
  "Port_init drv this_is_input nm w =
     (let p = new_port this_is_input nm;
          w1 = initialize w
      in case select_device drv p w1 of
           (Inl e, w2) \<Rightarrow> (Inl e, p, w2)
         | (Inr p1, w2) \<Rightarrow> open_stream drv p1 w2)"

definition Port_close ::
  "driver \<Rightarrow> 'a Port_scheme \<Rightarrow> world \<Rightarrow> (error + unit) \<times> 'a Port_scheme \<times> world" where
  "Port_close drv p w =
     (if \<not> closed p then
        (case check_error drv (Pm_Close drv (stream p)) (log_call (Call_Close (stream p)) w) of
           (Inl e, w1) \<Rightarrow> (Inl e, p, w1)
         | (Inr u, w1) \<Rightarrow>
             (case device p of
                None \<Rightarrow> (Inl AttributeError, p\<lparr>closed := True\<rparr>, w1)
              | Some d \<Rightarrow>
                  (Inr (), p\<lparr>closed := True, device := Some (d\<lparr>opened := False\<rparr>)\<rparr>, w1)))
      else (Inr (), p, w))"

definition Port_del ::
  "driver \<Rightarrow> 'a Port_scheme \<Rightarrow> world \<Rightarrow> (error + unit) \<times> 'a Port_scheme \<times> world" where
  "Port_del drv p w = Port_close drv p w"

definition Port_enter :: "'a Port_scheme \<Rightarrow> 'a Port_scheme" where
  "Port_enter p = p"

text \<open>
  \<^verbatim>\<open>__exit__(self, type, value, traceback)\<close>: the exception that left the block, if one
  did. It returns \<^verbatim>\<open>False\<close> and touches neither the port nor the driver.
\<close>

definition Port_exit ::
  "'a Port_scheme \<Rightarrow> error option \<Rightarrow> world \<Rightarrow> bool \<times> 'a Port_scheme \<times> world" where
  "Port_exit p exc w = (False, p, w)"

text \<open>
  Python's \<^verbatim>\<open>with port as target: body\<close>: \<^verbatim>\<open>__enter__\<close>, the body, then \<^verbatim>\<open>__exit__\<close>
  on every way out of the body; a true result of \<^verbatim>\<open>__exit__\<close> swallows the exception
  (the block then yields nothing, \<open>None\<close>).
\<close>

definition with_port ::
  "('a Port_scheme \<Rightarrow> world \<Rightarrow> (error + 'r) \<times> 'a Port_scheme \<times> world) \<Rightarrow>
   'a Port_scheme \<Rightarrow> world \<Rightarrow> (error + 'r option) \<times> 'a Port_scheme \<times> world" where
  "with_port body p w =
     (let (r, p1, w1) = body (Port_enter p) w;
          exc = (case r of Inl e \<Rightarrow> Some e | Inr v \<Rightarrow> None);
          (swallow, p2, w2) = Port_exit p1 exc w1
      in ((case r of
             Inl e \<Rightarrow> if swallow then Inr None else Inl e
           | Inr v \<Rightarrow> Inr (Some v)), p2, w2))"

subsection \<open>Input\<close>

text \<open>
  The \<^verbatim>\<open>Parser\<close> class is imported from another module. Its three uses here are
  parameters: the state of a fresh \<^verbatim>\<open>Parser()\<close>, \<^verbatim>\<open>feed_byte\<close>, and
  \<^verbatim>\<open>len(parser._parsed_messages)\<close>.
\<close>

record 'p Parser_class =
  Parser_new :: 'p
  feed_byte :: "int \<Rightarrow> 'p \<Rightarrow> 'p"
  parsed_messages_len :: "'p \<Rightarrow> nat"

record 'p Input = Port +
  parser :: 'p

text \<open>
  \<^verbatim>\<open>Input.__init__\<close>. When \<^verbatim>\<open>Port.__init__\<close> raises, \<^verbatim>\<open>self._parser\<close> is never
  assigned; the record then carries the fresh parser state as a placeholder.
\<close>

definition Input_init ::
  "driver \<Rightarrow> 'p Parser_class \<Rightarrow> string option \<Rightarrow> world \<Rightarrow>
   (error + unit) \<times> 'p Input \<times> world" where
  "Input_init drv pc nm w =
     (case Port_init drv True nm w of
        (r, p, w1) \<Rightarrow> (r, Port.extend p (Input.fields (Parser_new pc)), w1))"

text \<open>
  The inner loop of \<^verbatim>\<open>poll\<close>, \<^verbatim>\<open>for i in range(4)\<close>, with the number of rounds left:
  feed the low byte, then shift the word right by 8.
\<close>

fun feed_packed :: "'p Parser_class \<Rightarrow> nat \<Rightarrow> int \<Rightarrow> 'p \<Rightarrow> 'p" where
  "feed_packed pc 0 packed_message ps = ps"
| "feed_packed pc (Suc n) packed_message ps =
     feed_packed pc n (drop_bit 8 packed_message)
       (feed_byte pc (packed_message AND 0xff) ps)"

text \<open>
  The same loop in \<^verbatim>\<open>_print_event\<close>, which collects the bytes in a list:
  \<open>message_bytes event\<close> are the four bytes of an event in the order the parser gets them.
\<close>

fun unpack_bytes :: "nat \<Rightarrow> int \<Rightarrow> int list" where
  "unpack_bytes 0 v = []"
| "unpack_bytes (Suc n) v = (v AND 0xff) # unpack_bytes n (drop_bit 8 v)"

definition message_bytes :: "int \<Rightarrow> int list" where
  "message_bytes event_message = unpack_bytes 4 (event_message AND 0xffffffff)"

text \<open>
  The \<^verbatim>\<open>while pm.lib.Pm_Poll(self._stream)\<close> loop over the read results still pending.
  \<open>buf\<close> is the message in \<^verbatim>\<open>read_buffer[0]\<close>: a read that stores no event leaves it as
  it was. The parser state is returned on every path: Python mutates it in place, so the
  bytes fed before a driver error stay fed.
\<close>

fun poll_loop ::
  "driver \<Rightarrow> 'p Parser_class \<Rightarrow> nat \<Rightarrow> read_result list \<Rightarrow> int \<Rightarrow> 'p \<Rightarrow> world \<Rightarrow>
   (error + unit) \<times> 'p \<times> world" where
  "poll_loop drv pc s [] buf ps w = (Inr (), ps, log_call (Call_Poll s) w)"
| "poll_loop drv pc s (r # rs) buf ps w =
     (let w1 = log_call (Call_Read s 1) (log_call (Call_Poll s) w);
          buf1 = (case stored r of None \<Rightarrow> buf | Some m \<Rightarrow> m)
      in case check_error drv (num_events r) w1 of
           (Inl e, w2) \<Rightarrow> (Inl e, ps, w2)
         | (Inr u, w2) \<Rightarrow>
             poll_loop drv pc s rs buf1 (feed_packed pc 4 (buf1 AND 0xffffffff) ps) w2)"

text \<open>
  \<^verbatim>\<open>poll\<close>: \<open>None\<close> is Python's bare \<^verbatim>\<open>return\<close>. A fresh ctypes \<^verbatim>\<open>read_buffer\<close> is
  zero-filled.
\<close>

definition Input_poll ::
  "driver \<Rightarrow> 'p Parser_class \<Rightarrow> 'p Input \<Rightarrow> world \<Rightarrow>
   (error + nat option) \<times> 'p Input \<times> world" where
  "Input_poll drv pc p w =
     (if closed p then (Inr None, p, w)
      else case poll_loop drv pc (stream p) (pending_events drv) 0 (parser p) w of
             (Inl e, ps, w1) \<Rightarrow> (Inl e, p\<lparr>parser := ps\<rparr>, w1)
           | (Inr u, ps, w1) \<Rightarrow>
               (Inr (Some (parsed_messages_len pc ps)), p\<lparr>parser := ps\<rparr>, w1))"

subsection \<open>Output\<close>

text \<open>
  A message, as far as \<^verbatim>\<open>send\<close> looks at it: \<^verbatim>\<open>message.type\<close>, \<^verbatim>\<open>message.bytes()\<close>
  and \<^verbatim>\<open>message.bin()\<close>.
\<close>

record Message =
  msg_type :: string
  msg_bytes :: "int list"
  msg_bin :: "int list"

text \<open>
  The packing loop of \<^verbatim>\<open>send\<close>: \<^verbatim>\<open>for byte in reversed(...)\<close>, shift left by 8, or the
  byte in. Python integers are unbounded, and so is the accumulator.
\<close>

definition pack_bytes :: "int list \<Rightarrow> int" where
  "pack_bytes bs = foldl (\<lambda>packed_message byte. push_bit 8 packed_message OR byte) 0 (rev bs)"

definition Output_send ::
  "driver \<Rightarrow> 'a Port_scheme \<Rightarrow> Message \<Rightarrow> world \<Rightarrow> (error + unit) \<times> world" where
  "Output_send drv p message w =
     (if closed p then (Inl SendOnClosedPort, w)
      else if msg_type message = ''sysex'' then
        check_error drv (Pm_WriteSysEx drv (msg_bin message))
          (log_call (Call_WriteSysEx (stream p) 0 (msg_bin message)) w)
      else
        (let packed_message = pack_bytes (msg_bytes message)
         in check_error drv (Pm_WriteShort drv packed_message)
              (log_call (Call_WriteShort (stream p) 0 packed_message) w)))"

subsection \<open>Sequences of operations\<close>

text \<open>
  A client of the module: port constructions and registry queries, each against the
  driver as it answers at that moment. Only the module-level state is threaded through;
  the objects returned are the client's.
\<close>

datatype operation =
    New_Input "string option"
  | New_Output "string option"
  | Get_devices
  | Get_input_names
  | Get_output_names

fun perform :: "driver \<Rightarrow> operation \<Rightarrow> world \<Rightarrow> world" where
  "perform drv (New_Input nm) w = snd (snd (Port_init drv True nm w))"
| "perform drv (New_Output nm) w = snd (snd (Port_init drv False nm w))"
| "perform drv Get_devices w = snd (get_devices drv w)"
| "perform drv Get_input_names w = snd (get_input_names drv w)"
| "perform drv Get_output_names w = snd (get_output_names drv w)"

fun run :: "(driver \<times> operation) list \<Rightarrow> world \<Rightarrow> world" where
  "run [] w = w"
| "run ((drv, operation) # rest) w = run rest (perform drv operation w)"

subsection \<open>Notions the statements use\<close>

text \<open>The flag is down and the trace holds no \<^verbatim>\<open>Pm_Initialize\<close>.\<close>

definition never_initialized :: "world \<Rightarrow> bool" where
  "never_initialized w = (\<not> initialized w \<and> Call_Initialize \<notin> set (calls w))"

text \<open>
  The message in \<^verbatim>\<open>read_buffer[0]\<close> after each read of a poll, the buffer holding \<open>buf\<close>
  before the first one.
\<close>

fun buffer_contents :: "int \<Rightarrow> read_result list \<Rightarrow> int list" where
  "buffer_contents buf [] = []"
| "buffer_contents buf (r # rs) =
     (let buf1 = (case stored r of None \<Rightarrow> buf | Some m \<Rightarrow> m)
      in buf1 # buffer_contents buf1 rs)"

text \<open>The driver calls of one poll on stream \<open>s\<close> that reads \<open>n\<close> times.\<close>

definition poll_trace :: "nat \<Rightarrow> nat \<Rightarrow> driver_call list" where
  "poll_trace s n = concat (replicate n [Call_Poll s, Call_Read s 1]) @ [Call_Poll s]"




subsection \<open>A driver to run the model on\<close>

definition example_info :: "int \<Rightarrow> PmDeviceInfo option" where
  "example_info i =
     (if i = 0 then Some \<lparr>info_interface = ''ALSA'', info_name = ''Synth'',
                          info_is_input = False, info_is_output = True, info_opened = False\<rparr>
      else if i = 1 then Some \<lparr>info_interface = ''ALSA'', info_name = ''Keys'',
                          info_is_input = True, info_is_output = False, info_opened = True\<rparr>
      else if i = 2 then Some \<lparr>info_interface = ''ALSA'', info_name = ''Duo'',
                          info_is_input = True, info_is_output = True, info_opened = False\<rparr>
      else if i = 3 then Some \<lparr>info_interface = ''ALSA'', info_name = ''Keys'',
                          info_is_input = False, info_is_output = True, info_opened = False\<rparr>
      else if i = 4 then Some \<lparr>info_interface = ''ALSA'', info_name = ''Drums'',
                          info_is_input = True, info_is_output = False, info_opened = False\<rparr>
      else if i = 5 then Some \<lparr>info_interface = ''ALSA'', info_name = ''Keys'',
                          info_is_input = True, info_is_output = False, info_opened = False\<rparr>
      else None)"

text \<open>The records \<^verbatim>\<open>get_devices()\<close> builds from these answers.\<close>

definition example_devices :: "DeviceInfo list" where
  "example_devices =
     [\<lparr>device_id = 0, interface = ''ALSA'', name = ''Synth'',
       is_input = False, is_output = True, opened = False\<rparr>,
      \<lparr>device_id = 1, interface = ''ALSA'', name = ''Keys'',
       is_input = True, is_output = False, opened = True\<rparr>,
      \<lparr>device_id = 2, interface = ''ALSA'', name = ''Duo'',
       is_input = True, is_output = True, opened = False\<rparr>,
      \<lparr>device_id = 3, interface = ''ALSA'', name = ''Keys'',
       is_input = False, is_output = True, opened = False\<rparr>,
      \<lparr>device_id = 4, interface = ''ALSA'', name = ''Drums'',
       is_input = True, is_output = False, opened = False\<rparr>,
      \<lparr>device_id = 5, interface = ''ALSA'', name = ''Keys'',
       is_input = True, is_output = False, opened = False\<rparr>]"

text \<open>The trace \<^verbatim>\<open>get_devices()\<close> leaves on this driver.\<close>

definition example_enumeration :: "driver_call list" where
  "example_enumeration =
     [Call_CountDevices, Call_GetDeviceInfo 0, Call_GetDeviceInfo 1, Call_GetDeviceInfo 2,
      Call_GetDeviceInfo 3, Call_GetDeviceInfo 4, Call_GetDeviceInfo 5]"

definition example_driver :: driver where
  "example_driver =
     \<lparr>Pm_CountDevices = 6,
      Pm_GetDeviceInfo = example_info,
      Pm_GetDefaultInputDeviceID = 1,
      Pm_GetDefaultOutputDeviceID = 0,
      Pm_OpenInput = (\<lambda>i. (0, 7)),
      Pm_OpenOutput = (\<lambda>i. (0, 8)),
      Pm_Close = (\<lambda>s. 0),
      pending_events =
        [\<lparr>num_events = 1, stored = Some 0x007F4090\<rparr>,
         \<lparr>num_events = 1, stored = Some 0xF8F8F8F8\<rparr>],
      Pm_WriteShort = (\<lambda>m. 0),
      Pm_WriteSysEx = (\<lambda>bs. 0),
      Pm_GetErrorText = (\<lambda>rc. ''PortMidi: Invalid device ID'')\<rparr>"

text \<open>The same driver, refusing to open any stream.\<close>

definition refusing_driver :: driver where
  "refusing_driver =
     example_driver\<lparr>Pm_OpenInput := (\<lambda>i. (- 9999, 0)), Pm_OpenOutput := (\<lambda>i. (- 9999, 0))\<rparr>"

text \<open>
  A stand-in for the parser: its state is the number of status bytes (bytes with the high
  bit set) it has been fed, which it reports as the number of messages.
\<close>

definition counting_parser :: "nat Parser_class" where
  "counting_parser =
     \<lparr>Parser_new = 0,
      feed_byte = (\<lambda>byte n. if 0x80 \<le> byte then Suc n else n),
      parsed_messages_len = (\<lambda>n. n)\<rparr>"

definition open_output :: Port where
  "open_output = fst (snd (Port_init example_driver False (Some ''Synth'') initial_world))"

definition closed_output :: Port where
  "closed_output = new_port False (Some ''Synth'')"

definition open_input :: "nat Input" where
  "open_input = fst (snd (Input_init example_driver counting_parser (Some ''Drums'') initial_world))"

definition closed_input :: "nat Input" where
  "closed_input = Port.extend (new_port True (Some ''Drums'')) (Input.fields 0)"

definition note_on :: Message where
  "note_on = \<lparr>msg_type = ''note_on'', msg_bytes = [0x90, 0x40, 0x7F], msg_bin = [0x90, 0x40, 0x7F]\<rparr>"

definition five_bytes :: Message where
  "five_bytes = \<lparr>msg_type = ''note_on'', msg_bytes = [0x90, 0x40, 0x7F, 0x00, 0x01],
                 msg_bin = [0x90, 0x40, 0x7F, 0x00, 0x01]\<rparr>"

section \<open>The packed event codec\<close>

lemma low_byte: 
  fixes b x :: int
  assumes "0 \<le> b" "b < 256" 
  shows "(push_bit 8 x OR b) AND 0xff = b"
proof -
  have m: "(0xff::int) = mask 8" by (simp add: mask_eq_exp_minus_1)
  have "take_bit 8 b = b" using assms by (simp add: take_bit_int_eq_self)
  then have "take_bit 8 (push_bit 8 x OR b) = b"
    by (simp add: take_bit_push_bit)
  then show ?thesis unfolding m by (simp add: take_bit_eq_mask)
qed

lemma drop_byte:
  fixes b x :: int
  assumes "0 \<le> b" "b < 256" 
  shows "drop_bit 8 (push_bit 8 x OR b) = x"
proof -
  have "drop_bit 8 b = 0" using assms by (simp add: drop_bit_eq_div)
  then show ?thesis by (simp add: drop_bit_push_bit)
qed

lemma pack_bytes_Cons: "pack_bytes (b # bs) = push_bit 8 (pack_bytes bs) OR b"
  by (simp add: pack_bytes_def)


lemma unpack_pack:
  "\<forall>b\<in>set bs. 0 \<le> b \<and> b < 256 \<Longrightarrow> unpack_bytes (length bs) (pack_bytes bs) = bs"
proof (induction bs)
  case Nil show ?case by simp
next
  case (Cons b bs)
  have b: "0 \<le> b" "b < 256" using Cons.prems by simp_all
  have "unpack_bytes (Suc (length bs)) (push_bit 8 (pack_bytes bs) OR b)
        = b # unpack_bytes (length bs) (pack_bytes bs)"
    by (simp only: unpack_bytes.simps low_byte [OF b] drop_byte [OF b])
  then show ?case using Cons by (simp add: pack_bytes_Cons)
qed







section \<open>Evaluating the example driver\<close>

lemma initialize_initial_world: "initialize initial_world = initial_world"
  by (simp add: initialize_def initial_world_def)

lemma upto_0_5: "[0 .. (5::int)] = [0, 1, 2, 3, 4, 5]"
  by (simp add: upto.simps)

lemma example_driver_fields:
  "Pm_CountDevices example_driver = 6"
  "Pm_GetDeviceInfo example_driver = example_info"
  "Pm_GetDefaultInputDeviceID example_driver = 1"
  "Pm_GetDefaultOutputDeviceID example_driver = 0"
  "Pm_OpenInput example_driver = (\<lambda>i. (0, 7))"
  "Pm_OpenOutput example_driver = (\<lambda>i. (0, 8))"
  "Pm_Close example_driver = (\<lambda>s. 0)"
  "pending_events example_driver =
     [\<lparr>num_events = 1, stored = Some 0x007F4090\<rparr>, \<lparr>num_events = 1, stored = Some 0xF8F8F8F8\<rparr>]"
  "Pm_WriteShort example_driver = (\<lambda>m. 0)"
  "Pm_WriteSysEx example_driver = (\<lambda>bs. 0)"
  "Pm_GetErrorText example_driver = (\<lambda>rc. ''PortMidi: Invalid device ID'')"
  by (simp_all add: example_driver_def)

lemma get_devices_example:
  "get_devices example_driver w = (Inr example_devices, w\<lparr>calls := calls w @ example_enumeration\<rparr>)"
  by (simp add: get_devices_def example_driver_fields upto_0_5 DeviceInfo_init_def example_info_def
      log_call_def example_devices_def example_enumeration_def)

lemma open_output_eq:
  "open_output = \<lparr>is_Input = False, port_name = Some ''Synth'', closed = False, stream = 8,
     device = Some \<lparr>device_id = 0, interface = ''ALSA'', name = ''Synth'',
                    is_input = False, is_output = True, opened = True\<rparr>\<rparr>"
  by (simp add: open_output_def Port_init_def initialize_initial_world new_port_def
      select_device_def get_devices_example example_devices_def open_stream_def
      check_error_def log_call_def example_driver_fields Let_def)

lemma open_input_eq:
  "open_input = \<lparr>is_Input = True, port_name = Some ''Drums'', closed = False, stream = 7,
     device = Some \<lparr>device_id = 4, interface = ''ALSA'', name = ''Drums'',
                    is_input = True, is_output = False, opened = True\<rparr>, parser = 0\<rparr>"
  by (simp add: open_input_def Input_init_def Port_init_def initialize_initial_world new_port_def
      select_device_def get_devices_example example_devices_def open_stream_def
      check_error_def log_call_def example_driver_fields counting_parser_def Let_def
      Port.extend_def Input.fields_def)

section \<open>Closed ports\<close>

text \<open>
  Claim C8. For every message, \<^verbatim>\<open>send\<close> on a closed port raises the
  \<^verbatim>\<open>ValueError\<close> of a closed port and leaves the trace of driver calls as it was: neither
  \<^verbatim>\<open>Pm_WriteShort\<close> nor \<^verbatim>\<open>Pm_WriteSysEx\<close> is reached.
\<close>

theorem send_on_closed_port:
  "closed p \<Longrightarrow>
   Output_send drv p message w = (Inl SendOnClosedPort, w) \<and>
   calls (snd (Output_send drv p message w)) = calls w"
  by (simp add: Output_send_def)

theorem send_on_closed_port_witness:
  "closed closed_output \<and>
   Output_send example_driver closed_output note_on initial_world
     = (Inl SendOnClosedPort, \<lparr>initialized = False, calls = []\<rparr>)"
  using send_on_closed_port [of closed_output example_driver note_on initial_world]
  by (simp add: closed_output_def new_port_def initial_world_def)

text \<open>
  Claim C9. \<^verbatim>\<open>poll\<close> on a closed input port returns \<^verbatim>\<open>None\<close> (no integer, no
  exception) and changes neither the port, nor the parser, nor the trace of driver calls.
\<close>

theorem poll_on_closed_port:
  "closed p \<Longrightarrow> Input_poll drv pc p w = (Inr None, p, w)"
  by (simp add: Input_poll_def)

theorem poll_on_closed_port_witness:
  "closed closed_input \<and>
   Input_poll example_driver counting_parser closed_input initial_world
     = (Inr None, closed_input, \<lparr>initialized = False, calls = []\<rparr>)"
  using poll_on_closed_port [of closed_input example_driver counting_parser initial_world]
  by (simp add: closed_input_def new_port_def initial_world_def Port.extend_def Input.fields_def)


section \<open>The initialization flag\<close>

lemma never_initialized_log_call:
  "c \<noteq> Call_Initialize \<Longrightarrow> never_initialized w \<Longrightarrow> never_initialized (log_call c w)"
  by (simp add: never_initialized_def log_call_def)

lemma never_initialized_initialize: "never_initialized w \<Longrightarrow> initialize w = w"
  by (simp add: never_initialized_def initialize_def)

lemma never_initialized_check_error:
  "never_initialized w \<Longrightarrow> never_initialized (snd (check_error drv rc w))"
  by (simp add: check_error_def never_initialized_log_call)

lemma never_initialized_DeviceInfo_init:
  "never_initialized w \<Longrightarrow> never_initialized (snd (DeviceInfo_init drv i w))"
  by (simp add: DeviceInfo_init_def Let_def never_initialized_log_call split: option.split)

lemma never_initialized_get_devices_loop:
  "never_initialized w \<Longrightarrow> never_initialized (snd (get_devices_loop drv ids devices w))"
proof (induction ids arbitrary: devices w)
  case Nil
  then show ?case by simp
next
  case (Cons i ids)
  have step: "never_initialized (snd (DeviceInfo_init drv i w))"
    using Cons.prems by (rule never_initialized_DeviceInfo_init)
  show ?case
  proof (cases "DeviceInfo_init drv i w")
    case (Pair r w1)
    then have w1: "never_initialized w1" using step by simp
    show ?thesis
    proof (cases r)
      case (Inl e)
      then show ?thesis using Pair w1 by simp
    next
      case (Inr d)
      then show ?thesis using Pair Cons.IH [OF w1] by simp
    qed
  qed
qed

lemma never_initialized_get_devices:
  "never_initialized w \<Longrightarrow> never_initialized (snd (get_devices drv w))"
  by (simp add: get_devices_def never_initialized_get_devices_loop never_initialized_log_call)

lemma snd_get_input_names: "snd (get_input_names drv w) = snd (get_devices drv w)"
  by (simp add: get_input_names_def split: prod.split sum.split)

lemma snd_get_output_names: "snd (get_output_names drv w) = snd (get_devices drv w)"
  by (simp add: get_output_names_def split: prod.split sum.split)

lemma never_initialized_DeviceInfo_initD:
  "DeviceInfo_init drv i w = (r, w1) \<Longrightarrow> never_initialized w \<Longrightarrow> never_initialized w1"
  using never_initialized_DeviceInfo_init [of w drv i] by simp

lemma never_initialized_get_devicesD:
  "get_devices drv w = (r, w1) \<Longrightarrow> never_initialized w \<Longrightarrow> never_initialized w1"
  using never_initialized_get_devices [of w drv] by simp

lemma never_initialized_check_errorD:
  "check_error drv rc w = (r, w1) \<Longrightarrow> never_initialized w \<Longrightarrow> never_initialized w1"
  using never_initialized_check_error [of w drv rc] by simp

lemma never_initialized_select_device:
  assumes "never_initialized w"
  shows "never_initialized (snd (select_device drv p w))"
proof (cases "port_name p")
  case None
  have "never_initialized (log_call Call_GetDefaultInputDeviceID w)"
       "never_initialized (log_call Call_GetDefaultOutputDeviceID w)"
    using assms by (simp_all add: never_initialized_log_call)
  then show ?thesis
    by (auto simp: select_device_def None Let_def split: prod.splits sum.splits
             dest: never_initialized_DeviceInfo_initD)
next
  case (Some n)
  show ?thesis
    using assms
    by (auto simp: select_device_def Some split: prod.splits sum.splits
             dest: never_initialized_get_devicesD)
qed

lemma never_initialized_open_stream:
  assumes "never_initialized w"
  shows "never_initialized (snd (snd (open_stream drv p w)))"
proof (cases "device p")
  case None
  then show ?thesis using assms by (simp add: open_stream_def)
next
  case (Some d)
  have "never_initialized (log_call (Call_OpenInput (device_id d) 1000) w)"
       "never_initialized (log_call (Call_OpenOutput (device_id d) 0 0) w)"
    using assms by (simp_all add: never_initialized_log_call)
  then show ?thesis
    by (auto simp: open_stream_def Some Let_def split: prod.splits sum.splits
             dest: never_initialized_check_errorD)
qed

lemma never_initialized_Port_init:
  assumes "never_initialized w"
  shows "never_initialized (snd (snd (Port_init drv inp nm w)))"
proof (cases "select_device drv (new_port inp nm) w")
  case (Pair r w2)
  have w2: "never_initialized w2"
    using never_initialized_select_device [OF assms, of drv "new_port inp nm"] Pair by simp
  show ?thesis
  proof (cases r)
    case (Inl e)
    then show ?thesis
      using Pair w2 by (simp add: Port_init_def never_initialized_initialize [OF assms])
  next
    case (Inr p1)
    then show ?thesis
      using Pair never_initialized_open_stream [OF w2, of drv p1]
      by (simp add: Port_init_def never_initialized_initialize [OF assms])
  qed
qed

lemma never_initialized_perform:
  "never_initialized w \<Longrightarrow> never_initialized (perform drv operation w)"
  by (cases operation)
     (simp_all add: never_initialized_Port_init never_initialized_get_devices
        snd_get_input_names snd_get_output_names)

lemma never_initialized_run:
  "never_initialized w \<Longrightarrow> never_initialized (run steps w)"
  by (induction steps arbitrary: w) (auto simp: never_initialized_perform)

text \<open>
  Claim C7. The flag \<^verbatim>\<open>_initialized\<close> starts false, \<^verbatim>\<open>_initialize\<close> does nothing
  while it is false, and after every sequence of port constructions and registry queries,
  against any drivers, the flag is still false and \<^verbatim>\<open>Pm_Initialize\<close> has never been
  called.
\<close>

theorem driver_never_initialized:
  "\<not> initialized initial_world \<and>
   initialize initial_world = initial_world \<and>
   \<not> initialized (run steps initial_world) \<and>
   Call_Initialize \<notin> set (calls (run steps initial_world))"
proof -
  have "never_initialized initial_world"
    by (simp add: never_initialized_def initial_world_def)
  then have "never_initialized (run steps initial_world)"
    by (rule never_initialized_run)
  then show ?thesis
    by (simp add: never_initialized_def initialize_initial_world) (simp add: initial_world_def)
qed


section \<open>Port names\<close>

text \<open>
  Claim C10. Whatever records \<^verbatim>\<open>get_devices()\<close> returns, \<^verbatim>\<open>get_input_names()\<close>
  (\<^verbatim>\<open>get_output_names()\<close>) returns a list that is sorted ascending and has, as a
  multiset, exactly the names of the records whose \<open>is_input\<close> (\<open>is_output\<close>) flag is
  set: duplicates are kept, nothing is added or dropped.
\<close>

theorem names_sorted_projection:
  assumes "get_devices drv w = (Inr devices, w1)"
  shows "(\<exists>names. get_input_names drv w = (Inr names, w1) \<and> sorted names \<and>
            mset names = mset (map name (filter is_input devices))) \<and>
         (\<exists>names. get_output_names drv w = (Inr names, w1) \<and> sorted names \<and>
            mset names = mset (map name (filter is_output devices)))"
  using assms by (simp add: get_input_names_def get_output_names_def)

theorem names_sorted_projection_witness:
  "get_devices example_driver initial_world
     = (Inr example_devices, \<lparr>initialized = False, calls = example_enumeration\<rparr>) \<and>
   map name (filter is_input example_devices) = [''Keys'', ''Duo'', ''Drums'', ''Keys''] \<and>
   get_input_names example_driver initial_world
     = (Inr [''Drums'', ''Duo'', ''Keys'', ''Keys''],
        \<lparr>initialized = False, calls = example_enumeration\<rparr>) \<and>
   map name (filter is_output example_devices) = [''Synth'', ''Duo'', ''Keys''] \<and>
   get_output_names example_driver initial_world
     = (Inr [''Duo'', ''Keys'', ''Synth''],
        \<lparr>initialized = False, calls = example_enumeration\<rparr>)"
  using names_sorted_projection [of example_driver initial_world example_devices
      "\<lparr>initialized = False, calls = example_enumeration\<rparr>"]
  by (simp add: get_devices_example get_input_names_def get_output_names_def
      example_devices_def initial_world_def)

section \<open>Opening a port by name\<close>


lemma find_device_not_opened: "find_device this_is_input nm devices = Inr d \<Longrightarrow> \<not> opened d"
  by (induction devices) (auto split: if_splits)




section \<open>A driver that refuses to open the stream\<close>

lemma select_device_bound:
  assumes "select_device drv p w = (Inr p1, w1)"
  shows "closed p1 = closed p \<and> is_Input p1 = is_Input p \<and> stream p1 = stream p \<and>
         (\<exists>d. device p1 = Some d \<and> (port_name p \<noteq> None \<longrightarrow> \<not> opened d))"
proof (cases "port_name p")
  case None
  then show ?thesis
    using assms
    by (auto simp: select_device_def Let_def split: if_splits prod.splits sum.splits)
next
  case (Some n)
  then show ?thesis
    using assms
    by (auto simp: select_device_def split: prod.splits sum.splits dest: find_device_not_opened)
qed

text \<open>
  Claim C5, as amended. When the constructor has bound a device and the driver's
  \<^verbatim>\<open>Pm_OpenInput\<close> / \<^verbatim>\<open>Pm_OpenOutput\<close> returns a negative code, the constructor raises
  the \<^verbatim>\<open>IOError\<close> carrying \<^verbatim>\<open>Pm_GetErrorText\<close> of that code, the port is still closed,
  and the bound device record is the one the selection produced, its \<open>opened\<close> flag
  untouched. When the port was requested by name that flag is false.
\<close>

theorem open_refused:
  assumes "select_device drv (new_port this_is_input nm) (initialize w) = (Inr p1, w1)"
    and "device p1 = Some d"
    and "(if this_is_input then Pm_OpenInput drv (device_id d)
          else Pm_OpenOutput drv (device_id d)) = (rc, handle)"
    and "rc < 0"
  shows "Port_init drv this_is_input nm w =
           (Inl (NativeDriverError (Pm_GetErrorText drv rc)),
            p1\<lparr>stream := handle\<rparr>,
            log_call (Call_GetErrorText rc)
              (log_call (if this_is_input then Call_OpenInput (device_id d) 1000
                         else Call_OpenOutput (device_id d) 0 0) w1)) \<and>
         closed (p1\<lparr>stream := handle\<rparr>) \<and>
         device (p1\<lparr>stream := handle\<rparr>) = Some d \<and>
         (nm \<noteq> None \<longrightarrow> \<not> opened d)"
proof -
  have b: "closed p1" "is_Input p1 = this_is_input" "nm \<noteq> None \<longrightarrow> \<not> opened d"
    using select_device_bound [OF assms(1)] assms(2) by (simp_all add: new_port_def)
  have "open_stream drv p1 w1 =
           (Inl (NativeDriverError (Pm_GetErrorText drv rc)),
            p1\<lparr>stream := handle\<rparr>,
            log_call (Call_GetErrorText rc)
              (log_call (if this_is_input then Call_OpenInput (device_id d) 1000
                         else Call_OpenOutput (device_id d) 0 0) w1))"
    using assms(2,3,4) b(2) by (cases this_is_input) (simp_all add: open_stream_def check_error_def)
  then show ?thesis
    using assms(1,2) b by (simp add: Port_init_def)
qed

lemma refusing_driver_fields:
  "Pm_CountDevices refusing_driver = 6"
  "Pm_GetDeviceInfo refusing_driver = example_info"
  "Pm_GetDefaultInputDeviceID refusing_driver = 1"
  "Pm_GetDefaultOutputDeviceID refusing_driver = 0"
  "Pm_OpenInput refusing_driver = (\<lambda>i. (- 9999, 0))"
  "Pm_OpenOutput refusing_driver = (\<lambda>i. (- 9999, 0))"
  "Pm_GetErrorText refusing_driver = (\<lambda>rc. ''PortMidi: Invalid device ID'')"
  by (simp_all add: refusing_driver_def example_driver_def)

lemma get_devices_refusing:
  "get_devices refusing_driver w = (Inr example_devices, w\<lparr>calls := calls w @ example_enumeration\<rparr>)"
  by (simp add: get_devices_def refusing_driver_fields upto_0_5 DeviceInfo_init_def example_info_def
      log_call_def example_devices_def example_enumeration_def)

theorem open_refused_witness:
  "select_device refusing_driver (new_port False (Some ''Synth'')) (initialize initial_world)
     = (Inr \<lparr>is_Input = False, port_name = Some ''Synth'', closed = True, stream = 0,
             device = Some \<lparr>device_id = 0, interface = ''ALSA'', name = ''Synth'',
                            is_input = False, is_output = True, opened = False\<rparr>\<rparr>,
        \<lparr>initialized = False, calls = example_enumeration\<rparr>) \<and>
   Pm_OpenOutput refusing_driver 0 = (- 9999, 0) \<and>
   Port_init refusing_driver False (Some ''Synth'') initial_world
     = (Inl (NativeDriverError ''PortMidi: Invalid device ID''),
        \<lparr>is_Input = False, port_name = Some ''Synth'', closed = True, stream = 0,
         device = Some \<lparr>device_id = 0, interface = ''ALSA'', name = ''Synth'',
                        is_input = False, is_output = True, opened = False\<rparr>\<rparr>,
        \<lparr>initialized = False,
         calls = example_enumeration @ [Call_OpenOutput 0 0 0, Call_GetErrorText (- 9999)]\<rparr>)"
  using open_refused [of refusing_driver False "Some ''Synth''" initial_world
      "\<lparr>is_Input = False, port_name = Some ''Synth'', closed = True, stream = 0,
             device = Some \<lparr>device_id = 0, interface = ''ALSA'', name = ''Synth'',
                            is_input = False, is_output = True, opened = False\<rparr>\<rparr>"
      "\<lparr>initialized = False, calls = example_enumeration\<rparr>"
      "\<lparr>device_id = 0, interface = ''ALSA'', name = ''Synth'',
                            is_input = False, is_output = True, opened = False\<rparr>"
      "- 9999" 0]
  by (simp add: select_device_def new_port_def initialize_def initial_world_def
      get_devices_refusing example_devices_def refusing_driver_fields log_call_def)

text \<open>
  Claim C5 as stated says the flag stays false. On the default-device path the flag is
  never tested: here the driver's default input is already opened, the open call is
  refused, and the bound record keeps \<open>opened = True\<close>.
\<close>

theorem default_device_opened_counterexample:
  "Pm_OpenInput refusing_driver 1 = (- 9999, 0) \<and>
   Port_init refusing_driver True None initial_world
     = (Inl (NativeDriverError ''PortMidi: Invalid device ID''),
        \<lparr>is_Input = True, port_name = Some ''Keys'', closed = True, stream = 0,
         device = Some \<lparr>device_id = 1, interface = ''ALSA'', name = ''Keys'',
                        is_input = True, is_output = False, opened = True\<rparr>\<rparr>,
        \<lparr>initialized = False,
         calls = [Call_GetDefaultInputDeviceID, Call_GetDeviceInfo 1, Call_OpenInput 1 1000,
                  Call_GetErrorText (- 9999)]\<rparr>)"
  by (simp add: Port_init_def select_device_def new_port_def initialize_def initial_world_def
      refusing_driver_fields log_call_def DeviceInfo_init_def example_info_def
      open_stream_def check_error_def Let_def)

section \<open>Polling\<close>

lemma feed_packed_foldl:
  "feed_packed pc n v ps = foldl (\<lambda>ps byte. feed_byte pc byte ps) ps (unpack_bytes n v)"
  by (induction n arbitrary: v ps) simp_all

lemma poll_trace_Suc:
  "poll_trace s (Suc n) = Call_Poll s # Call_Read s 1 # poll_trace s n"
  by (simp add: poll_trace_def)

lemma poll_loop_reads_all:
  assumes "\<forall>r\<in>set rs. 0 \<le> num_events r"
  shows "poll_loop drv pc s rs buf ps w =
           (Inr (),
            foldl (\<lambda>ps byte. feed_byte pc byte ps) ps
              (concat (map message_bytes (buffer_contents buf rs))),
            w\<lparr>calls := calls w @ poll_trace s (length rs)\<rparr>)"
  using assms
proof (induction rs arbitrary: buf ps w)
  case Nil
  show ?case by (simp add: log_call_def poll_trace_def)
next
  case (Cons r rs)
  have ok: "\<not> num_events r < 0" using Cons.prems by simp
  have rest: "\<forall>r\<in>set rs. 0 \<le> num_events r" using Cons.prems by simp
  show ?case
    by (simp add: Let_def check_error_def ok Cons.IH [OF rest] feed_packed_foldl
        message_bytes_def log_call_def poll_trace_Suc)
qed

text \<open>
  Claim C6. On an open input port, with any pending events whose reads the driver does
  not fail: \<^verbatim>\<open>poll\<close> asks \<^verbatim>\<open>Pm_Poll\<close> before every read and once more at the end,
  every \<^verbatim>\<open>Pm_Read\<close> is for a buffer of length 1, the parser is fed the four decoded
  bytes of the event in the buffer after each read, in order, and the integer returned is
  the parser's count of parsed messages after that, whatever the number of events read.
\<close>

theorem poll_drains_one_event_at_a_time:
  assumes "\<not> closed p" and "\<forall>r\<in>set (pending_events drv). 0 \<le> num_events r"
  shows "Input_poll drv pc p w =
           (Inr (Some (parsed_messages_len pc
                   (foldl (\<lambda>ps byte. feed_byte pc byte ps) (parser p)
                      (concat (map message_bytes (buffer_contents 0 (pending_events drv))))))),
            p\<lparr>parser := foldl (\<lambda>ps byte. feed_byte pc byte ps) (parser p)
                      (concat (map message_bytes (buffer_contents 0 (pending_events drv))))\<rparr>,
            w\<lparr>calls := calls w @ poll_trace (stream p) (length (pending_events drv))\<rparr>)"
  using assms by (simp add: Input_poll_def poll_loop_reads_all)

text \<open>
  Two events are read and the stand-in parser counts five messages: the result is the
  parser's count, not the number of events.
\<close>

theorem poll_drains_one_event_at_a_time_witness:
  "\<not> closed open_input \<and>
   list_all (\<lambda>r. 0 \<le> num_events r) (pending_events example_driver) \<and>
   length (pending_events example_driver) = 2 \<and>
   buffer_contents 0 (pending_events example_driver) = [0x007F4090, 0xF8F8F8F8] \<and>
   concat (map message_bytes [0x007F4090, 0xF8F8F8F8])
     = [0x90, 0x40, 0x7F, 0x00, 0xF8, 0xF8, 0xF8, 0xF8] \<and>
   Input_poll example_driver counting_parser open_input initial_world
     = (Inr (Some 5), open_input\<lparr>parser := 5\<rparr>,
        \<lparr>initialized = False,
         calls = [Call_Poll 7, Call_Read 7 1, Call_Poll 7, Call_Read 7 1, Call_Poll 7]\<rparr>)"
  using poll_drains_one_event_at_a_time [of open_input example_driver counting_parser initial_world]
  by (simp add: open_input_eq example_driver_fields message_bytes_def numeral_eq_Suc
      counting_parser_def poll_trace_def initial_world_def)

section \<open>Sending\<close>

text \<open>
  Claim C4, as amended. \<^verbatim>\<open>send\<close> has no length check. For an ordinary message of any
  length on an open port, with bytes in 0..255, it makes exactly one \<^verbatim>\<open>Pm_WriteShort\<close>
  call, with timestamp 0 and the fold of \<^emph>\<open>all\<close> the bytes as the word (every byte can
  be read back from it: nothing is truncated), and raises only if the driver returns a
  negative code.
\<close>

theorem send_packs_every_byte:
  assumes "\<not> closed p" and "msg_type message \<noteq> ''sysex''"
    and "\<forall>b\<in>set (msg_bytes message). 0 \<le> b \<and> b \<le> 255"
    and "word = pack_bytes (msg_bytes message)"
    and "rc = Pm_WriteShort drv word"
  shows "Output_send drv p message w =
           (if rc < 0
            then (Inl (NativeDriverError (Pm_GetErrorText drv rc)),
                  w\<lparr>calls := calls w @ [Call_WriteShort (stream p) 0 word, Call_GetErrorText rc]\<rparr>)
            else (Inr (), w\<lparr>calls := calls w @ [Call_WriteShort (stream p) 0 word]\<rparr>)) \<and>
         unpack_bytes (length (msg_bytes message)) word = msg_bytes message"
proof -
  have r: "\<forall>b\<in>set (msg_bytes message). 0 \<le> b \<and> b < 256" using assms(3) by auto
  show ?thesis
    using assms(1,2) unpack_pack [OF r]
    by (simp add: assms(4,5) Output_send_def log_call_def check_error_def Let_def)
qed

theorem send_packs_every_byte_witness:
  "\<not> closed open_output \<and> msg_type five_bytes \<noteq> ''sysex'' \<and>
   list_all (\<lambda>b. 0 \<le> b \<and> b \<le> 255) (msg_bytes five_bytes) \<and>
   pack_bytes (msg_bytes five_bytes) = 0x01007F4090 \<and>
   unpack_bytes 5 0x01007F4090 = [0x90, 0x40, 0x7F, 0x00, 0x01] \<and>
   Output_send example_driver open_output five_bytes initial_world
     = (Inr (), \<lparr>initialized = False, calls = [Call_WriteShort 8 0 0x01007F4090]\<rparr>)"
  using send_packs_every_byte [of open_output five_bytes "0x01007F4090" 0 example_driver
      initial_world]
  by (simp add: open_output_eq five_bytes_def pack_bytes_def example_driver_fields
      initial_world_def numeral_eq_Suc)

text \<open>
  Claim C4 as stated fails: an ordinary message of five bytes on an open port is written
  to the driver, as a word that does not fit 32 bits, and \<^verbatim>\<open>send\<close> returns normally.
\<close>

theorem send_five_bytes_counterexample:
  "\<not> closed open_output \<and> msg_type five_bytes \<noteq> ''sysex'' \<and>
   length (msg_bytes five_bytes) = 5 \<and>
   Output_send example_driver open_output five_bytes initial_world
     = (Inr (), \<lparr>initialized = False, calls = [Call_WriteShort 8 0 0x01007F4090]\<rparr>) \<and>
   (2::int) ^ 32 \<le> 0x01007F4090"
  by (simp add: open_output_eq five_bytes_def pack_bytes_def example_driver_fields
      initial_world_def Output_send_def check_error_def log_call_def)

section \<open>Leaving a with block\<close>

text \<open>
  Claim C1 does not hold of the code. \<^verbatim>\<open>__exit__\<close> only returns \<^verbatim>\<open>False\<close>: the port
  and the driver trace after a \<^verbatim>\<open>with\<close> block are those the body left, for every body,
  port and state. An open port is still open after a block that ends normally and after
  one that raises, and \<^verbatim>\<open>Pm_Close\<close> has not been called; \<^verbatim>\<open>__del__\<close>, in the same
  state, does close it.
\<close>

theorem with_block_does_not_close:
  "snd (with_port body p w) = snd (body p w) \<and>
   \<not> closed open_output \<and>
   with_port (\<lambda>p w. (Inr (), p, w)) open_output initial_world
     = (Inr (Some ()), open_output, initial_world) \<and>
   with_port (\<lambda>p w. (Inl SendOnClosedPort :: error + unit, p, w)) open_output initial_world
     = (Inl SendOnClosedPort, open_output, initial_world) \<and>
   Port_del example_driver open_output initial_world
     = (Inr (),
        open_output\<lparr>closed := True,
          device := Some \<lparr>device_id = 0, interface = ''ALSA'', name = ''Synth'',
                          is_input = False, is_output = True, opened = False\<rparr>\<rparr>,
        \<lparr>initialized = False, calls = [Call_Close 8]\<rparr>)"
proof -
  have "snd (with_port body p w) = snd (body p w)"
    by (simp add: with_port_def Port_enter_def Port_exit_def split: prod.split)
  moreover have "\<not> closed open_output"
    by (simp add: open_output_eq)
  moreover have "with_port (\<lambda>p w. (Inr (), p, w)) open_output initial_world
     = (Inr (Some ()), open_output, initial_world)"
    by (simp add: with_port_def Port_enter_def Port_exit_def)
  moreover have "with_port (\<lambda>p w. (Inl SendOnClosedPort :: error + unit, p, w)) open_output initial_world
     = (Inl SendOnClosedPort, open_output, initial_world)"
    by (simp add: with_port_def Port_enter_def Port_exit_def)
  moreover have "Port_del example_driver open_output initial_world
     = (Inr (),
        open_output\<lparr>closed := True,
          device := Some \<lparr>device_id = 0, interface = ''ALSA'', name = ''Synth'',
                          is_input = False, is_output = True, opened = False\<rparr>\<rparr>,
        \<lparr>initialized = False, calls = [Call_Close 8]\<rparr>)"
    by (simp add: Port_del_def Port_close_def open_output_eq example_driver_fields
        check_error_def log_call_def initial_world_def)
  ultimately show ?thesis by simp
qed

end
